theory Spec2Isabelle
  imports Complex_Main "HOL-Library.Word"
begin

section \<open>Statsview: configuration, sampling scheduler and metric sources\<close>

text \<open>
  A shallow embedding of the Go package \<^verbatim>\<open>viewer\<close> (the configuration and its
  options, \<^verbatim>\<open>StatsMgr\<close> with its polling goroutine, \<^verbatim>\<open>GCNumViewer\<close>), of the
  collection \<^verbatim>\<open>Viewers\<close> of the package \<^verbatim>\<open>statsview\<close>, and of the example
  \<^verbatim>\<open>StaticViewer\<close>.

  Conventions.
  \<^item> Package-level variables (\<^verbatim>\<open>defaultCfg\<close>, \<^verbatim>\<open>memstats\<close>, the counter
    \<^verbatim>\<open>i\<close>) are explicit arguments and results.
  \<^item> \<^verbatim>\<open>time.Now().Unix()\<close> is an input: every function that reads the clock takes
    the reading, in whole Unix seconds, as an argument; a function that reads the clock
    twice takes two readings.
  \<^item> Go's \<^verbatim>\<open>int\<close> (64 bits on the usual platforms) and \<^verbatim>\<open>int64\<close> are values of
    HOL's \<open>int\<close>, and every arithmetic result is wrapped into the 64-bit
    two's-complement range by \<open>int64\<close>.
  \<^item> The read/write mutex \<^verbatim>\<open>memstats.mu\<close> makes the refresh and each read of the
    snapshot atomic with respect to one another. The model is sequential: each step
    below runs as a whole, which is what the lock provides. Taking and releasing the
    lock are among the calls of the step that refreshes; they change no component of the
    state.
\<close>

subsection \<open>Machine arithmetic\<close>

definition int64 :: "int \<Rightarrow> int" where
  "int64 x = (x + 9223372036854775808) mod 18446744073709551616 - 9223372036854775808"

text \<open>Go's \<^verbatim>\<open>/\<close> and \<^verbatim>\<open>%\<close> on integers truncate towards zero.\<close>

definition go_quot :: "int \<Rightarrow> int \<Rightarrow> int" where
  "go_quot a b = sgn a * sgn b * (\<bar>a\<bar> div \<bar>b\<bar>)"

definition go_rem :: "int \<Rightarrow> int \<Rightarrow> int" where
  "go_rem a b = a - b * go_quot a b"

text \<open>
  \<^verbatim>\<open>int64(float64(n)/1000.0)\<close>. For \<open>\<bar>n\<bar> < 2^53\<close> the conversion to float64 is
  exact, the correctly rounded quotient never reaches the next integer (it is at least
  \<open>1/1000\<close> away from it, more than half a unit in the last place below \<open>2^44\<close>), and
  the conversion to int64 truncates towards zero: the result is the truncated quotient.
  Outside that range the float64 rounding of \<open>n\<close> itself is not modelled.
\<close>

definition millis_to_secs :: "int \<Rightarrow> int" where
  "millis_to_secs n = go_quot n 1000"

subsection \<open>Configuration\<close>

record config =
  AutoOpenBrowser :: bool
  Interval :: int
  MaxPoints :: int
  Template :: string
  ListenAddr :: string
  LinkAddr :: string
  TimeFormat :: string
  Theme :: string

definition DefaultMaxPoints :: int where "DefaultMaxPoints = 30"
definition DefaultTimeFormat :: string where "DefaultTimeFormat = ''15:04:05''"
definition DefaultInterval :: int where "DefaultInterval = 2000"
definition DefaultAddr :: string where "DefaultAddr = ''localhost:18066''"

text \<open>
  The initial value of \<^verbatim>\<open>defaultCfg\<close>. The text of \<^verbatim>\<open>DefaultTemplate\<close> (a
  JavaScript snippet) and the value of \<^verbatim>\<open>DefaultTheme\<close> (a constant of the
  charting library) are parameters: nothing below looks inside them.
\<close>

definition defaultCfg :: "string \<Rightarrow> string \<Rightarrow> config" where
  "defaultCfg DefaultTemplate DefaultTheme =
     \<lparr> AutoOpenBrowser = False,
       Interval = DefaultInterval,
       MaxPoints = DefaultMaxPoints,
       Template = DefaultTemplate,
       ListenAddr = DefaultAddr,
       LinkAddr = DefaultAddr,
       TimeFormat = DefaultTimeFormat,
       Theme = DefaultTheme \<rparr>"

type_synonym Option = "config \<Rightarrow> config"

definition WithInterval :: "int \<Rightarrow> Option" where
  "WithInterval interval c = c\<lparr>Interval := interval\<rparr>"

definition WithMaxPoints :: "int \<Rightarrow> Option" where
  "WithMaxPoints n c = c\<lparr>MaxPoints := n\<rparr>"

definition WithTemplate :: "string \<Rightarrow> Option" where
  "WithTemplate t c = c\<lparr>Template := t\<rparr>"

definition WithAddr :: "string \<Rightarrow> Option" where
  "WithAddr addr c = c\<lparr>ListenAddr := addr, LinkAddr := addr\<rparr>"

definition WithLinkAddr :: "string \<Rightarrow> Option" where
  "WithLinkAddr addr c = c\<lparr>LinkAddr := addr\<rparr>"

definition WithTimeFormat :: "string \<Rightarrow> Option" where
  "WithTimeFormat s c = c\<lparr>TimeFormat := s\<rparr>"

definition WithTheme :: "string \<Rightarrow> Option" where
  "WithTheme theme c = c\<lparr>Theme := theme\<rparr>"

definition WithBrowserOpen :: Option where
  "WithBrowserOpen c = c\<lparr>AutoOpenBrowser := True\<rparr>"

text \<open>\<^verbatim>\<open>for _, opt := range opts { opt(defaultCfg) }\<close>, on the configuration passed in.\<close>

fun SetConfiguration :: "Option list \<Rightarrow> config \<Rightarrow> config" where
  "SetConfiguration [] c = c"
| "SetConfiguration (opt # opts) c = SetConfiguration opts (opt c)"

subsection \<open>The sampling scheduler\<close>

text \<open>
  \<^verbatim>\<open>type StatsMgr struct { last int64; time int64; Ctx; Cancel }\<close>. The field
  \<^verbatim>\<open>last\<close> is the activity deadline and \<^verbatim>\<open>time\<close> the time of the last refresh,
  both in Unix seconds. The context fields only end the polling loop, which is the
  event \<open>CtxDone\<close> below.
\<close>

record StatsMgr =
  last_tick :: int
  time :: int

text \<open>
  The snapshot \<^verbatim>\<open>memstats.Stats\<close>, a \<^verbatim>\<open>runtime.MemStats\<close>: the counter
  \<^verbatim>\<open>NumGC\<close> (a uint32) that \<^verbatim>\<open>GCNumViewer\<close> reads, and all its other fields
  together as one component of any type.
\<close>

record 'r MemStats =
  NumGC :: "32 word"
  others :: 'r

text \<open>The shared state: the manager every viewer is bound to, and the snapshot.\<close>

record 'r world =
  smgr :: StatsMgr
  memstats :: "'r MemStats"

text \<open>
  \<^verbatim>\<open>time.Now().Unix() + int64(float64(Interval())/1000.0)*2\<close>, the expression of
  both \<^verbatim>\<open>NewStatsMgr\<close> and \<^verbatim>\<open>Tick\<close>; \<open>now\<close> is the clock reading.
\<close>

definition deadline_after :: "config \<Rightarrow> int \<Rightarrow> int" where
  "deadline_after cfg now = int64 (now + int64 (millis_to_secs (Interval cfg) * 2))"

text \<open>
  \<^verbatim>\<open>NewStatsMgr\<close>: the struct literal leaves \<^verbatim>\<open>time\<close> at its zero value. The
  goroutine it starts is \<open>polling\<close> below.
\<close>

definition NewStatsMgr :: "config \<Rightarrow> int \<Rightarrow> StatsMgr" where
  "NewStatsMgr cfg now = \<lparr> last_tick = deadline_after cfg now, time = 0 \<rparr>"

definition Tick :: "config \<Rightarrow> int \<Rightarrow> StatsMgr \<Rightarrow> StatsMgr" where
  "Tick cfg now s = s\<lparr>last_tick := deadline_after cfg now\<rparr>"

definition GetTick :: "StatsMgr \<Rightarrow> int" where
  "GetTick s = last_tick s"

definition TimeUpdate :: "int \<Rightarrow> StatsMgr \<Rightarrow> StatsMgr" where
  "TimeUpdate now s = s\<lparr>time := now\<rparr>"

definition GetTime :: "StatsMgr \<Rightarrow> int" where
  "GetTime s = time s"

text \<open>
  The body of \<^verbatim>\<open>case <-ticker.C\<close>. The guard reads the clock (\<open>now\<close>);
  \<^verbatim>\<open>TimeUpdate\<close> reads it again (\<open>now'\<close>); \<open>fresh\<close> is what
  \<^verbatim>\<open>runtime.ReadMemStats\<close> writes into the snapshot. The body is the sequence of
  calls it makes, in order, and their effect on the state one after the other. Taking
  and releasing \<^verbatim>\<open>memstats.mu\<close> orders the body against the readers and changes
  no component of the state.
\<close>

definition refresh_due :: "int \<Rightarrow> StatsMgr \<Rightarrow> bool" where
  "refresh_due now s = (GetTick s > now)"

datatype 'r call =
  MuLock
| CallTimeUpdate int
| CallReadMemStats "'r MemStats"
| MuUnlock

definition ticker_calls :: "int \<Rightarrow> int \<Rightarrow> 'r MemStats \<Rightarrow> StatsMgr \<Rightarrow> 'r call list" where
  "ticker_calls now now' fresh s =
     (if refresh_due now s
      then [MuLock, CallTimeUpdate now', CallReadMemStats fresh, MuUnlock]
      else [])"

fun do_call :: "'r world \<Rightarrow> 'r call \<Rightarrow> 'r world" where
  "do_call w MuLock = w"
| "do_call w (CallTimeUpdate now') = w\<lparr>smgr := TimeUpdate now' (smgr w)\<rparr>"
| "do_call w (CallReadMemStats fresh) = w\<lparr>memstats := fresh\<rparr>"
| "do_call w MuUnlock = w"

definition ticker_case :: "int \<Rightarrow> int \<Rightarrow> 'r MemStats \<Rightarrow> 'r world \<Rightarrow> 'r world" where
  "ticker_case now now' fresh w = foldl do_call w (ticker_calls now now' fresh (smgr w))"

text \<open>
  What the polling goroutine meets, in order: a firing of the ticker (with the two clock
  readings and the statistics the runtime would report), the cancellation of the
  context, or, between two iterations, a call of \<^verbatim>\<open>Tick\<close> by a \<^verbatim>\<open>Serve\<close> handler
  running in another goroutine.
\<close>

datatype 'r event =
  TickerC int int "'r MemStats"
| CtxDone
| Pull int

text \<open>The \<^verbatim>\<open>for { select { ... } }\<close> loop; it returns at \<open>CtxDone\<close>.\<close>

fun polling_loop :: "config \<Rightarrow> 'r world \<Rightarrow> 'r event list \<Rightarrow> 'r world" where
  "polling_loop cfg w [] = w"
| "polling_loop cfg w (TickerC now now' fresh # es) =
     polling_loop cfg (ticker_case now now' fresh w) es"
| "polling_loop cfg w (CtxDone # es) = w"
| "polling_loop cfg w (Pull now # es) =
     polling_loop cfg (w\<lparr>smgr := Tick cfg now (smgr w)\<rparr>) es"

text \<open>
  \<^verbatim>\<open>time.NewTicker(time.Duration(Interval()) * time.Millisecond)\<close> panics when the
  duration, a count of nanoseconds in an int64, is not positive.
\<close>

datatype panic = NonPositiveTickerInterval

definition polling :: "config \<Rightarrow> 'r world \<Rightarrow> 'r event list \<Rightarrow> panic + 'r world" where
  "polling cfg w es =
     (if int64 (int64 (Interval cfg) * 1000000) \<le> 0 then Inl NonPositiveTickerInterval
      else Inr (polling_loop cfg w es))"

text \<open>
  A log of the loop, one entry for each ticker firing it handles: the value
  \<^verbatim>\<open>TimeUpdate\<close> stored when the refresh ran, \<open>None\<close> when the guard skipped it.
\<close>

fun tick_log :: "config \<Rightarrow> 'r world \<Rightarrow> 'r event list \<Rightarrow> int option list" where
  "tick_log cfg w [] = []"
| "tick_log cfg w (TickerC now now' fresh # es) =
     (if refresh_due now (smgr w)
      then Some (GetTime (smgr (ticker_case now now' fresh w)))
      else None)
     # tick_log cfg (ticker_case now now' fresh w) es"
| "tick_log cfg w (CtxDone # es) = []"
| "tick_log cfg w (Pull now # es) = tick_log cfg (w\<lparr>smgr := Tick cfg now (smgr w)\<rparr>) es"

text \<open>The stamps of the refreshes that ran, in order.\<close>

definition refresh_stamps :: "config \<Rightarrow> 'r world \<Rightarrow> 'r event list \<Rightarrow> int list" where
  "refresh_stamps cfg w es = List.map_filter id (tick_log cfg w es)"

text \<open>The clock readings of an event sequence, in the order they are taken.\<close>

fun readings :: "'r event list \<Rightarrow> int list" where
  "readings [] = []"
| "readings (TickerC now now' fresh # es) = now # now' # readings es"
| "readings (CtxDone # es) = readings es"
| "readings (Pull now # es) = now # readings es"

text \<open>
  Event sequences that consist of ticker firings only (no call of \<^verbatim>\<open>Tick\<close> and no
  cancellation in between), each with a guard reading that satisfies \<open>P\<close>.
\<close>

fun ticks_only :: "(int \<Rightarrow> bool) \<Rightarrow> 'r event list \<Rightarrow> bool" where
  "ticks_only P [] = True"
| "ticks_only P (TickerC now now' fresh # es) = (P now \<and> ticks_only P es)"
| "ticks_only P (e # es) = False"

subsection \<open>Metric sources\<close>

text \<open>
  \<^verbatim>\<open>type Metrics struct { Values []float64; Time string }\<close>. The values served are
  conversions of small integers, which float64 holds exactly; they are reals here.
\<close>

record Metrics =
  Values :: "real list"
  Time :: string

text \<open>
  Two library functions are parameters. \<open>marshal\<close> is \<^verbatim>\<open>json.Marshal\<close>: the bytes
  it returns and its error (\<open>None\<close> for nil). \<open>format\<close> is
  \<^verbatim>\<open>time.Unix(sec, 0).Format(layout)\<close>.
\<close>

type_synonym marshal = "Metrics \<Rightarrow> string \<times> string option"
type_synonym format = "int \<Rightarrow> string \<Rightarrow> string"

text \<open>
  \<^verbatim>\<open>GCNumViewer.Serve\<close>. The viewer's \<^verbatim>\<open>smgr\<close> is the shared manager
  (\<^verbatim>\<open>New\<close> binds every viewer before it installs the routes). \<open>rw\<close> is what the
  response holds so far; \<^verbatim>\<open>w.Write(bs)\<close> appends to it, and its results are dropped.
\<close>

definition GCNumViewer_metrics :: "format \<Rightarrow> config \<Rightarrow> 'r world \<Rightarrow> Metrics" where
  "GCNumViewer_metrics format cfg w =
     \<lparr> Values = [real (unat (NumGC (memstats w)))],
       Time = format (GetTime (smgr w)) (TimeFormat cfg) \<rparr>"

definition GCNumViewer_Serve ::
  "marshal \<Rightarrow> format \<Rightarrow> config \<Rightarrow> int \<Rightarrow> 'r world \<Rightarrow> string \<Rightarrow> 'r world \<times> string" where
  "GCNumViewer_Serve marshal format cfg now w rw =
     (let w1 = w\<lparr>smgr := Tick cfg now (smgr w)\<rparr>;
          metrics = GCNumViewer_metrics format cfg w1;
          (bs, err) = marshal metrics
      in (w1, rw @ bs))"

text \<open>
  \<^verbatim>\<open>StaticViewer.Serve\<close>, with the package variable \<^verbatim>\<open>i\<close> (a Go int) beside
  the manager.
\<close>

definition StaticViewer_metrics :: "format \<Rightarrow> config \<Rightarrow> StatsMgr \<Rightarrow> int \<Rightarrow> Metrics" where
  "StaticViewer_metrics format cfg s i =
     \<lparr> Values = [real_of_int (go_rem i 10)],
       Time = format (GetTime s) (TimeFormat cfg) \<rparr>"

definition StaticViewer_Serve ::
  "marshal \<Rightarrow> format \<Rightarrow> config \<Rightarrow> int \<Rightarrow> StatsMgr \<times> int \<Rightarrow> string
     \<Rightarrow> (StatsMgr \<times> int) \<times> string" where
  "StaticViewer_Serve marshal format cfg now st rw =
     (let s1 = Tick cfg now (fst st);
          metrics = StaticViewer_metrics format cfg s1 (snd st);
          i1 = int64 (snd st + 1);
          (bs, err) = marshal metrics
      in ((s1, i1), rw @ bs))"

text \<open>
  Successive calls of \<^verbatim>\<open>StaticViewer.Serve\<close>, one for each clock reading of the list,
  each with a response of its own: the state after the last call and the bodies written,
  in order.
\<close>

fun StaticViewer_Serves ::
  "marshal \<Rightarrow> format \<Rightarrow> config \<Rightarrow> StatsMgr \<times> int \<Rightarrow> int list
     \<Rightarrow> (StatsMgr \<times> int) \<times> string list" where
  "StaticViewer_Serves marshal format cfg st [] = (st, [])"
| "StaticViewer_Serves marshal format cfg st (now # nows) =
     (let (st1, body) = StaticViewer_Serve marshal format cfg now st [];
          (st2, bodies) = StaticViewer_Serves marshal format cfg st1 nows
      in (st2, body # bodies))"

subsection \<open>The collection of viewers\<close>

text \<open>
  \<^verbatim>\<open>type Viewers []viewer.Viewer\<close>. \<^verbatim>\<open>Register\<close> is Go's \<^verbatim>\<open>append\<close> and never
  looks at an element, so the element type is a parameter.
\<close>

type_synonym 'v Viewers = "'v list"

definition NewEmptyViewers :: "'v Viewers" where
  "NewEmptyViewers = []"

definition Register :: "'v Viewers \<Rightarrow> 'v list \<Rightarrow> 'v Viewers" where
  "Register v views = v @ views"

text \<open>
  The two viewers of the sources, each with the identifier of the chart it owns, and
  their \<^verbatim>\<open>Name()\<close>.
\<close>

datatype Viewer = GCNumViewer string | StaticViewer string

definition VGCNum :: string where "VGCNum = ''gcnum''"
definition VStatic :: string where "VStatic = ''static''"

fun Name :: "Viewer \<Rightarrow> string" where
  "Name (GCNumViewer g) = VGCNum"
| "Name (StaticViewer g) = VStatic"

section \<open>Auxiliary facts\<close>

subsection \<open>Arithmetic inside the 64-bit range\<close>

lemma int64_id: "- 9223372036854775808 \<le> x \<Longrightarrow> x < 9223372036854775808 \<Longrightarrow> int64 x = x"
  by (simp add: int64_def)

lemma go_quot_nonneg: "0 \<le> a \<Longrightarrow> 0 < b \<Longrightarrow> go_quot a b = a div b"
  by (cases "a = 0") (simp_all add: go_quot_def)

lemma go_rem_nonneg: "0 \<le> a \<Longrightarrow> 0 < b \<Longrightarrow> go_rem a b = a mod b"
  by (simp add: go_rem_def go_quot_nonneg minus_mult_div_eq_mod)

lemma millis_to_secs_nonneg: "0 \<le> n \<Longrightarrow> millis_to_secs n = n div 1000"
  by (simp add: millis_to_secs_def go_quot_nonneg)

lemma deadline_after_eq:
  assumes "0 \<le> Interval cfg" "Interval cfg < 9007199254740992"
    and "0 \<le> now" "now < 4611686018427387904"
  shows "deadline_after cfg now = now + 2 * (Interval cfg div 1000)"
proof -
  have q: "0 \<le> Interval cfg div 1000" "Interval cfg div 1000 < 9007199254741"
    using assms by (simp_all add: pos_imp_zdiv_nonneg_iff)
  have "int64 (millis_to_secs (Interval cfg) * 2) = 2 * (Interval cfg div 1000)"
    using assms q by (simp add: millis_to_secs_nonneg int64_id)
  then show ?thesis
    using assms q by (simp add: deadline_after_def int64_id)
qed

subsection \<open>The deadline and the loop\<close>

lemma GetTick_Tick: "GetTick (Tick cfg now s) = deadline_after cfg now"
  by (simp add: GetTick_def Tick_def)

lemma GetTick_NewStatsMgr: "GetTick (NewStatsMgr cfg now) = deadline_after cfg now"
  by (simp add: GetTick_def NewStatsMgr_def)

lemma ticker_case_eq:
  "ticker_case now now' fresh w =
     (if refresh_due now (smgr w)
      then w\<lparr>smgr := TimeUpdate now' (smgr w), memstats := fresh\<rparr>
      else w)"
  by (simp add: ticker_case_def ticker_calls_def)

lemma GetTick_ticker_case: "GetTick (smgr (ticker_case now now' fresh w)) = GetTick (smgr w)"
  by (simp add: ticker_case_eq GetTick_def TimeUpdate_def)

lemma polling_runs:
  assumes "0 < Interval cfg" "Interval cfg < 9223372036854"
  shows "polling cfg w es = Inr (polling_loop cfg w es)"
proof -
  have "int64 (Interval cfg) = Interval cfg"
    using assms by (simp add: int64_id)
  moreover have "int64 (Interval cfg * 1000000) = Interval cfg * 1000000"
    using assms by (simp add: int64_id)
  ultimately show ?thesis
    using assms by (simp add: polling_def)
qed

lemma polling_panics:
  assumes "Interval cfg \<le> 0" "- 9223372036854 < Interval cfg"
  shows "polling cfg w es = Inl NonPositiveTickerInterval"
proof -
  have "int64 (Interval cfg) = Interval cfg"
    using assms by (simp add: int64_id)
  moreover have "int64 (Interval cfg * 1000000) = Interval cfg * 1000000"
    using assms by (simp add: int64_id)
  ultimately show ?thesis
    using assms by (simp add: polling_def mult_le_0_iff)
qed

lemma idle_loop:
  assumes "ticks_only (\<lambda>now. GetTick (smgr w) \<le> now) es"
  shows "polling_loop cfg w es = w \<and> tick_log cfg w es = replicate (length es) None"
  using assms
proof (induction es)
  case Nil
  then show ?case by simp
next
  case (Cons e es)
  then show ?case
    by (cases e) (simp_all add: ticker_case_eq refresh_due_def)
qed

lemma ticks_only_mono:
  assumes "ticks_only P es" "\<And>n. P n \<Longrightarrow> Q n"
  shows "ticks_only Q es"
  using assms(1)
proof (induction es)
  case Nil
  then show ?case by simp
next
  case (Cons e es)
  then show ?case by (cases e) (simp_all add: assms(2))
qed

lemma busy_loop:
  assumes "ticks_only (\<lambda>now. now < GetTick (smgr w)) es"
  shows "length (tick_log cfg w es) = length es \<and> None \<notin> set (tick_log cfg w es)"
  using assms
proof (induction es arbitrary: w)
  case Nil
  then show ?case by simp
next
  case (Cons e es)
  show ?case
  proof (cases e)
    case (TickerC n n' m)
    with Cons.prems have n: "n < GetTick (smgr w)"
      and rest: "ticks_only (\<lambda>now. now < GetTick (smgr (ticker_case n n' m w))) es"
      by (simp_all add: GetTick_ticker_case)
    from Cons.IH[OF rest] n TickerC show ?thesis
      by (simp add: refresh_due_def)
  next
    case CtxDone
    with Cons.prems show ?thesis by simp
  next
    case (Pull n)
    with Cons.prems show ?thesis by simp
  qed
qed

lemma refresh_stamps_simps:
  "refresh_stamps cfg w [] = []"
  "refresh_stamps cfg w (TickerC now now' fresh # es) =
     (if refresh_due now (smgr w) then [now'] else [])
       @ refresh_stamps cfg (ticker_case now now' fresh w) es"
  "refresh_stamps cfg w (CtxDone # es) = []"
  "refresh_stamps cfg w (Pull now # es) = refresh_stamps cfg (w\<lparr>smgr := Tick cfg now (smgr w)\<rparr>) es"
  by (simp_all add: refresh_stamps_def List.map_filter_simps ticker_case_eq GetTime_def
      TimeUpdate_def)

lemma refresh_stamps_subset: "set (refresh_stamps cfg w es) \<subseteq> set (readings es)"
proof (induction es arbitrary: w)
  case Nil
  then show ?case by (simp add: refresh_stamps_simps)
next
  case (Cons e es)
  then show ?case
    by (cases e) (auto simp: refresh_stamps_simps)
qed

subsection \<open>The cyclic source\<close>

lemma int64_int64_add: "int64 (int64 x + y) = int64 (x + y)"
proof -
  have "int64 x + y + 9223372036854775808
        = (x + 9223372036854775808) mod 18446744073709551616 + y"
    by (simp add: int64_def)
  then have "(int64 x + y + 9223372036854775808) mod 18446744073709551616
        = ((x + 9223372036854775808) mod 18446744073709551616 + y) mod 18446744073709551616"
    by (simp only:)
  also have "\<dots> = (x + 9223372036854775808 + y) mod 18446744073709551616"
    by (rule mod_add_left_eq)
  also have "x + 9223372036854775808 + y = x + y + 9223372036854775808"
    by simp
  finally have e: "(int64 x + y + 9223372036854775808) mod 18446744073709551616
        = (x + y + 9223372036854775808) mod 18446744073709551616" .
  have "int64 (int64 x + y)
        = (int64 x + y + 9223372036854775808) mod 18446744073709551616 - 9223372036854775808"
    by (rule int64_def)
  also have "\<dots> = (x + y + 9223372036854775808) mod 18446744073709551616 - 9223372036854775808"
    by (simp only: e)
  also have "\<dots> = int64 (x + y)"
    by (rule int64_def[symmetric])
  finally show ?thesis .
qed

lemma StaticViewer_Serve_eq:
  "StaticViewer_Serve marshal format cfg now (s, i) rw =
     ((Tick cfg now s, int64 (i + 1)),
      rw @ fst (marshal \<lparr> Values = [real_of_int (go_rem i 10)],
                            Time = format (GetTime s) (TimeFormat cfg) \<rparr>))"
  by (simp add: StaticViewer_Serve_def StaticViewer_metrics_def Let_def split_beta
      GetTime_def Tick_def)

lemma Serves_counter:
  "snd (fst (StaticViewer_Serves marshal format cfg (s, c) nows)) =
     (if nows = [] then c else int64 (c + int (length nows)))"
proof (induction nows arbitrary: s c)
  case Nil
  then show ?case by simp
next
  case (Cons now nows)
  show ?case
    using Cons.IH[of "Tick cfg now s" "int64 (c + 1)"]
    by (simp add: StaticViewer_Serve_eq split_beta int64_int64_add add.assoc)
qed

lemma Serves_bodies:
  assumes "k < length nows" "int64 c = c"
  shows "snd (StaticViewer_Serves marshal format cfg (s, c) nows) ! k =
         fst (marshal \<lparr> Values = [real_of_int (go_rem (int64 (c + int k)) 10)],
                          Time = format (GetTime s) (TimeFormat cfg) \<rparr>)"
  using assms
proof (induction nows arbitrary: s c k)
  case Nil
  then show ?case by simp
next
  case (Cons now nows)
  show ?case
  proof (cases k)
    case 0
    with Cons.prems show ?thesis
      by (simp add: StaticViewer_Serve_eq split_beta)
  next
    case (Suc j)
    have idem: "int64 (int64 (c + 1)) = int64 (c + 1)"
      using int64_int64_add[of "c + 1" 0] by simp
    have t: "GetTime (Tick cfg now s) = GetTime s"
      by (simp add: GetTime_def Tick_def)
    from Cons.prems Suc have "j < length nows" by simp
    from Cons.IH[OF this idem, of "Tick cfg now s"] Suc show ?thesis
      by (simp add: StaticViewer_Serve_eq split_beta int64_int64_add t add.assoc)
  qed
qed

lemma StaticViewer_wraps:
  "snd (StaticViewer_Serves marshal format cfg (s, 0) (replicate 9223372036854775809 now))
     ! 9223372036854775808 =
   fst (marshal \<lparr> Values = [- 8], Time = format (GetTime s) (TimeFormat cfg) \<rparr>)"
proof -
  have "int64 9223372036854775808 = - 9223372036854775808"
    by (simp add: int64_def)
  moreover have "go_rem (- 9223372036854775808) 10 = - 8"
    by (simp add: go_rem_def go_quot_def)
  ultimately show ?thesis
    using Serves_bodies[of 9223372036854775808 "replicate 9223372036854775809 now" 0
        marshal format cfg s]
    by (simp add: int64_id)
qed

section \<open>The claims\<close>

subsection \<open>The activity deadline\<close>

text \<open>
  C1. \<^verbatim>\<open>Tick\<close> is documented to set \<^verbatim>\<open>last\<close> to the current time plus twice the
  interval. With an interval of 1500 milliseconds twice the interval is 3 seconds, and a
  call at the clock reading 100 should store 103. The code converts the interval to
  whole seconds before it doubles it, and stores 102.
\<close>

theorem Tick_truncates_before_doubling:
  "GetTick (Tick (WithInterval 1500 c) 100 s) = 102"
  by (simp add: GetTick_def Tick_def WithInterval_def deadline_after_def millis_to_secs_def
      go_quot_def int64_def)

subsection \<open>One firing of the ticker\<close>

text \<open>
  C2, as the code has it. At a firing of the ticker whose guard reads the clock at
  \<open>now\<close>: when \<open>now\<close> is strictly before the activity deadline, the refresh runs:
  the write lock is taken, \<^verbatim>\<open>TimeUpdate\<close> stamps the sample time with the clock
  reading it takes, the statistics are read into the snapshot, the lock is released, and
  the deadline stays as it was. When \<open>now\<close> is at or after the deadline, the firing
  makes no call and changes nothing at all.
\<close>

theorem ticker_case_refresh_iff:
  "(now < GetTick (smgr w) \<longrightarrow>
      ticker_calls now now' fresh (smgr w)
        = [MuLock, CallTimeUpdate now', CallReadMemStats fresh, MuUnlock]
      \<and> ticker_case now now' fresh w
        = w\<lparr>smgr := (smgr w)\<lparr>time := now'\<rparr>, memstats := fresh\<rparr>)
   \<and> (GetTick (smgr w) \<le> now \<longrightarrow>
      ticker_calls now now' fresh (smgr w) = [] \<and> ticker_case now now' fresh w = w)"
  by (simp add: ticker_case_def ticker_calls_def refresh_due_def TimeUpdate_def)

theorem ticker_case_refresh_iff_witness:
  "(3::int) < GetTick (smgr \<lparr>smgr = \<lparr>last_tick = 5, time = 1\<rparr>,
                               memstats = \<lparr>NumGC = 0, others = ()\<rparr>\<rparr>)
   \<and> ticker_calls 3 4 \<lparr>NumGC = 7, others = ()\<rparr> \<lparr>last_tick = 5, time = 1\<rparr>
      = [MuLock, CallTimeUpdate 4, CallReadMemStats \<lparr>NumGC = 7, others = ()\<rparr>, MuUnlock]
   \<and> ticker_case 3 4 \<lparr>NumGC = 7, others = ()\<rparr>
        \<lparr>smgr = \<lparr>last_tick = 5, time = 1\<rparr>, memstats = \<lparr>NumGC = 0, others = ()\<rparr>\<rparr>
      = \<lparr>smgr = \<lparr>last_tick = 5, time = 4\<rparr>, memstats = \<lparr>NumGC = 7, others = ()\<rparr>\<rparr>
   \<and> GetTick (smgr \<lparr>smgr = \<lparr>last_tick = 5, time = 1\<rparr>,
                        memstats = \<lparr>NumGC = 0, others = ()\<rparr>\<rparr>) \<le> (8::int)
   \<and> ticker_calls 8 9 \<lparr>NumGC = 7, others = ()\<rparr> \<lparr>last_tick = 5, time = 1\<rparr> = []
   \<and> ticker_case 8 9 \<lparr>NumGC = 7, others = ()\<rparr>
        \<lparr>smgr = \<lparr>last_tick = 5, time = 1\<rparr>, memstats = \<lparr>NumGC = 0, others = ()\<rparr>\<rparr>
      = \<lparr>smgr = \<lparr>last_tick = 5, time = 1\<rparr>, memstats = \<lparr>NumGC = 0, others = ()\<rparr>\<rparr>"
  using
    ticker_case_refresh_iff [of 3
      "\<lparr>smgr = \<lparr>last_tick = 5, time = 1\<rparr>, memstats = \<lparr>NumGC = 0, others = ()\<rparr>\<rparr>"
      4 "\<lparr>NumGC = 7, others = ()\<rparr>"]
    ticker_case_refresh_iff [of 8
      "\<lparr>smgr = \<lparr>last_tick = 5, time = 1\<rparr>, memstats = \<lparr>NumGC = 0, others = ()\<rparr>\<rparr>"
      9 "\<lparr>NumGC = 7, others = ()\<rparr>"]
  by (simp add: GetTick_def)

text \<open>
  The claim has the refresh run whenever \<open>now \<le> deadline\<close>. At \<open>now = deadline\<close>
  the guard \<^verbatim>\<open>s.GetTick() > time.Now().Unix()\<close> is false: with the deadline 5 and a
  firing at 5, no call is made, and the snapshot and the sample time stay as they were.
\<close>

theorem ticker_case_at_deadline:
  "(5::int) \<le> GetTick \<lparr>last_tick = 5, time = 1\<rparr>
   \<and> ticker_calls 5 6 \<lparr>NumGC = 7, others = ()\<rparr> \<lparr>last_tick = 5, time = 1\<rparr> = []
   \<and> ticker_case 5 6 \<lparr>NumGC = 7, others = ()\<rparr>
        \<lparr>smgr = \<lparr>last_tick = 5, time = 1\<rparr>, memstats = \<lparr>NumGC = 0, others = ()\<rparr>\<rparr>
      = \<lparr>smgr = \<lparr>last_tick = 5, time = 1\<rparr>, memstats = \<lparr>NumGC = 0, others = ()\<rparr>\<rparr>"
  by (simp add: ticker_case_def ticker_calls_def refresh_due_def GetTick_def)

subsection \<open>Firings inside the activity window\<close>

text \<open>
  C3, as the code has it. Let the interval be a whole number \<open>k > 0\<close> of seconds
  (\<open>1000 * k\<close> milliseconds, below \<open>2^53\<close>), and let \<^verbatim>\<open>Tick\<close> run at the clock
  reading \<open>T\<close> (between 0 and \<open>2^62\<close>). Then every firing of the ticker whose guard
  reads a time strictly between \<open>T\<close> and \<open>T + 2 * k\<close>, with no call of \<^verbatim>\<open>Tick\<close>
  in between, performs a refresh: the log has one entry for each firing and none of them
  is a skip.
\<close>

theorem ticks_in_window_refresh:
  assumes "Interval cfg = 1000 * k" "0 < k" "Interval cfg < 9007199254740992"
    and "0 \<le> T" "T < 4611686018427387904"
    and "ticks_only (\<lambda>now. T < now \<and> now < T + 2 * k) es"
  shows "length (tick_log cfg (w\<lparr>smgr := Tick cfg T (smgr w)\<rparr>) es) = length es
         \<and> None \<notin> set (tick_log cfg (w\<lparr>smgr := Tick cfg T (smgr w)\<rparr>) es)"
proof -
  let ?w = "w\<lparr>smgr := Tick cfg T (smgr w)\<rparr>"
  have "GetTick (Tick cfg T (smgr w)) = T + 2 * (Interval cfg div 1000)"
    using assms by (simp add: GetTick_Tick deadline_after_eq)
  then have d: "GetTick (Tick cfg T (smgr w)) = T + 2 * k"
    using assms(1) by simp
  have "ticks_only (\<lambda>now. now < GetTick (smgr ?w)) es"
    using assms(6) by (rule ticks_only_mono) (simp add: d)
  then show ?thesis by (rule busy_loop)
qed

theorem ticks_in_window_refresh_witness:
  "Interval (defaultCfg [] []) = 1000 * 2
   \<and> ticks_only (\<lambda>now. 100 < now \<and> now < 100 + 2 * 2)
        [TickerC 101 101 \<lparr>NumGC = 7, others = ()\<rparr>, TickerC 103 103 \<lparr>NumGC = 8, others = ()\<rparr>]
   \<and> length (tick_log (defaultCfg [] [])
        (\<lparr>smgr = \<lparr>last_tick = 0, time = 0\<rparr>, memstats = \<lparr>NumGC = 0, others = ()\<rparr>\<rparr>
           \<lparr>smgr := Tick (defaultCfg [] []) 100 \<lparr>last_tick = 0, time = 0\<rparr>\<rparr>)
        [TickerC 101 101 \<lparr>NumGC = 7, others = ()\<rparr>, TickerC 103 103 \<lparr>NumGC = 8, others = ()\<rparr>])
      = 2
   \<and> None \<notin> set (tick_log (defaultCfg [] [])
        (\<lparr>smgr = \<lparr>last_tick = 0, time = 0\<rparr>, memstats = \<lparr>NumGC = 0, others = ()\<rparr>\<rparr>
           \<lparr>smgr := Tick (defaultCfg [] []) 100 \<lparr>last_tick = 0, time = 0\<rparr>\<rparr>)
        [TickerC 101 101 \<lparr>NumGC = 7, others = ()\<rparr>, TickerC 103 103 \<lparr>NumGC = 8, others = ()\<rparr>])"
proof -
  have i: "Interval (defaultCfg [] []) = 1000 * 2"
    by (simp add: defaultCfg_def DefaultInterval_def)
  have b: "Interval (defaultCfg [] []) < 9007199254740992"
    by (simp add: defaultCfg_def DefaultInterval_def)
  have t: "ticks_only (\<lambda>now. 100 < now \<and> now < 100 + 2 * 2)
        [TickerC 101 101 \<lparr>NumGC = 7, others = ()\<rparr>, TickerC 103 103 \<lparr>NumGC = 8, others = ()\<rparr>]"
    by simp
  from ticks_in_window_refresh [OF i _ b _ _ t,
      of "\<lparr>smgr = \<lparr>last_tick = 0, time = 0\<rparr>, memstats = \<lparr>NumGC = 0, others = ()\<rparr>\<rparr>"]
  show ?thesis using i t by simp
qed

text \<open>
  The claim includes the right end of the window. With the default interval of 2000
  milliseconds and \<^verbatim>\<open>Tick\<close> at 100, the deadline is 104; a firing at 104, which is
  \<open>T + 2 * interval\<close>, finds the guard false and is skipped.
\<close>

theorem tick_at_window_end_skipped:
  "(100::int) < 104
   \<and> 1000 * (104 - 100) \<le> 2 * Interval (defaultCfg [] [])
   \<and> tick_log (defaultCfg [] [])
        (\<lparr>smgr = \<lparr>last_tick = 0, time = 0\<rparr>, memstats = \<lparr>NumGC = 0, others = ()\<rparr>\<rparr>
           \<lparr>smgr := Tick (defaultCfg [] []) 100 \<lparr>last_tick = 0, time = 0\<rparr>\<rparr>)
        [TickerC 104 104 \<lparr>NumGC = 7, others = ()\<rparr>]
      = [None]"
  by (simp add: defaultCfg_def DefaultInterval_def Tick_def deadline_after_def
      millis_to_secs_def go_quot_def int64_def refresh_due_def GetTick_def)

subsection \<open>Firings after the activity window\<close>

text \<open>
  C4, as the code has it. Let the interval be positive (below \<open>2^53\<close> milliseconds) and
  let the deadline be the one stored at the clock reading \<open>T\<close> (between 0 and
  \<open>2^62\<close>), by \<^verbatim>\<open>Tick\<close> or by \<^verbatim>\<open>NewStatsMgr\<close>. Then a sequence of firings of the
  ticker, each at least twice the interval after \<open>T\<close> and with no call of \<^verbatim>\<open>Tick\<close>
  in between, performs no refresh and leaves the whole state, the snapshot included, as
  it was.
\<close>

theorem idle_ticks_skip:
  assumes "0 < Interval cfg" "Interval cfg < 9007199254740992"
    and "0 \<le> T" "T < 4611686018427387904"
    and "GetTick (smgr w) = deadline_after cfg T"
    and "ticks_only (\<lambda>now. 2 * Interval cfg \<le> 1000 * (now - T)) es"
  shows "polling_loop cfg w es = w \<and> tick_log cfg w es = replicate (length es) None"
proof -
  have d: "GetTick (smgr w) = T + 2 * (Interval cfg div 1000)"
    using assms by (simp add: deadline_after_eq)
  have "1000 * (Interval cfg div 1000) \<le> Interval cfg"
    by presburger
  then have "\<And>n. 2 * Interval cfg \<le> 1000 * (n - T) \<Longrightarrow> GetTick (smgr w) \<le> n"
    using d by simp
  then have "ticks_only (\<lambda>now. GetTick (smgr w) \<le> now) es"
    using assms(6) by (rule ticks_only_mono[rotated])
  then show ?thesis by (rule idle_loop)
qed

theorem idle_ticks_skip_witness:
  "2 * Interval (defaultCfg [] []) \<le> 1000 * (104 - 100)
   \<and> polling_loop (defaultCfg [] [])
        \<lparr>smgr = Tick (defaultCfg [] []) 100 \<lparr>last_tick = 0, time = 0\<rparr>,
         memstats = \<lparr>NumGC = 0, others = ()\<rparr>\<rparr>
        [TickerC 104 104 \<lparr>NumGC = 7, others = ()\<rparr>, TickerC 106 106 \<lparr>NumGC = 8, others = ()\<rparr>]
      = \<lparr>smgr = Tick (defaultCfg [] []) 100 \<lparr>last_tick = 0, time = 0\<rparr>,
         memstats = \<lparr>NumGC = 0, others = ()\<rparr>\<rparr>
   \<and> tick_log (defaultCfg [] [])
        \<lparr>smgr = Tick (defaultCfg [] []) 100 \<lparr>last_tick = 0, time = 0\<rparr>,
         memstats = \<lparr>NumGC = 0, others = ()\<rparr>\<rparr>
        [TickerC 104 104 \<lparr>NumGC = 7, others = ()\<rparr>, TickerC 106 106 \<lparr>NumGC = 8, others = ()\<rparr>]
      = [None, None]"
proof -
  have i: "0 < Interval (defaultCfg [] [])" "Interval (defaultCfg [] []) < 9007199254740992"
    by (simp_all add: defaultCfg_def DefaultInterval_def)
  have d: "GetTick (smgr \<lparr>smgr = Tick (defaultCfg [] []) 100 \<lparr>last_tick = 0, time = 0\<rparr>,
         memstats = \<lparr>NumGC = 0, others = ()\<rparr>\<rparr>) = deadline_after (defaultCfg [] []) 100"
    by (simp add: GetTick_def Tick_def)
  have t: "ticks_only (\<lambda>now. 2 * Interval (defaultCfg [] []) \<le> 1000 * (now - 100))
        [TickerC 104 104 \<lparr>NumGC = 7, others = ()\<rparr>, TickerC 106 106 \<lparr>NumGC = 8, others = ()\<rparr>]"
    by (simp add: defaultCfg_def DefaultInterval_def)
  from idle_ticks_skip [OF i _ _ d t] show ?thesis
    by (simp add: defaultCfg_def DefaultInterval_def)
qed

text \<open>
  The claim counts calls of \<^verbatim>\<open>Tick\<close> only. \<^verbatim>\<open>NewStatsMgr\<close> stores a deadline too:
  with the default interval, a manager built at 100 and never sent a \<^verbatim>\<open>Tick\<close> still
  refreshes at a firing at 102, and the snapshot changes.
\<close>

theorem startup_tick_refreshes_without_activity:
  "tick_log (defaultCfg [] [])
        \<lparr>smgr = NewStatsMgr (defaultCfg [] []) 100, memstats = \<lparr>NumGC = 0, others = ()\<rparr>\<rparr>
        [TickerC 102 102 \<lparr>NumGC = 7, others = ()\<rparr>]
      = [Some 102]
   \<and> memstats (polling_loop (defaultCfg [] [])
        \<lparr>smgr = NewStatsMgr (defaultCfg [] []) 100, memstats = \<lparr>NumGC = 0, others = ()\<rparr>\<rparr>
        [TickerC 102 102 \<lparr>NumGC = 7, others = ()\<rparr>])
      = \<lparr>NumGC = 7, others = ()\<rparr>
   \<and> \<lparr>NumGC = 7, others = ()\<rparr> \<noteq> \<lparr>NumGC = 0 :: 32 word, others = ()\<rparr>"
  by (simp add: defaultCfg_def DefaultInterval_def NewStatsMgr_def deadline_after_def
      millis_to_secs_def go_quot_def int64_def refresh_due_def GetTick_def ticker_case_eq
      TimeUpdate_def GetTime_def)

subsection \<open>The cyclic source\<close>

text \<open>
  C5, as the code has it. Start \<^verbatim>\<open>StaticViewer\<close> with its counter at 0 and call
  \<^verbatim>\<open>Serve\<close> again and again. For every \<open>N\<close> from 1 up to, but not including,
  \<open>2^63\<close>, the \<open>N\<close>th call writes the encoding of a point whose only value is
  \<open>(N - 1) mod 10\<close> (with the manager's sample time as its label), and after the
  \<open>N\<close>th call the counter is \<open>N\<close>.
\<close>

theorem StaticViewer_cycle:
  assumes "1 \<le> N" "N \<le> length nows" "N < 9223372036854775808"
  shows "snd (StaticViewer_Serves marshal format cfg (s, 0) nows) ! (N - 1) =
           fst (marshal \<lparr> Values = [real ((N - 1) mod 10)],
                            Time = format (GetTime s) (TimeFormat cfg) \<rparr>)
         \<and> snd (fst (StaticViewer_Serves marshal format cfg (s, 0) (take N nows))) = int N"
proof -
  have k: "N - 1 < length nows" using assms by simp
  have "int64 (int (N - 1)) = int (N - 1)"
    using assms by (simp add: int64_id)
  moreover have "go_rem (int (N - 1)) 10 = int ((N - 1) mod 10)"
    by (simp add: go_rem_nonneg zmod_int)
  ultimately have body: "snd (StaticViewer_Serves marshal format cfg (s, 0) nows) ! (N - 1) =
           fst (marshal \<lparr> Values = [real ((N - 1) mod 10)],
                            Time = format (GetTime s) (TimeFormat cfg) \<rparr>)"
    using Serves_bodies[OF k, of 0 marshal format cfg s] by (simp add: int64_id)
  have "take N nows \<noteq> []" "length (take N nows) = N"
    using assms by auto
  moreover have "int64 (int N) = int N"
    using assms by (simp add: int64_id)
  ultimately have "snd (fst (StaticViewer_Serves marshal format cfg (s, 0) (take N nows))) = int N"
    by (simp add: Serves_counter)
  with body show ?thesis by simp
qed

theorem StaticViewer_cycle_witness:
  "(1::nat) \<le> 3 \<and> 3 \<le> length [100, 101, 102 :: int]
   \<and> snd (StaticViewer_Serves (\<lambda>m. (if Values m = [2] then ''two'' else ''other'', None))
            (\<lambda>sec layout. layout) (defaultCfg [] []) (\<lparr>last_tick = 0, time = 0\<rparr>, 0)
            [100, 101, 102]) ! (3 - 1)
      = ''two''
   \<and> snd (fst (StaticViewer_Serves (\<lambda>m. (if Values m = [2] then ''two'' else ''other'', None))
            (\<lambda>sec layout. layout) (defaultCfg [] []) (\<lparr>last_tick = 0, time = 0\<rparr>, 0)
            (take 3 [100, 101, 102])))
      = 3"
  using StaticViewer_cycle [of 3 "[100, 101, 102]"
      "\<lambda>m. (if Values m = [2] then ''two'' else ''other'', None)"
      "\<lambda>sec layout. layout" "defaultCfg [] []" "\<lparr>last_tick = 0, time = 0\<rparr>"]
  by simp

text \<open>
  The claim is for every \<open>N\<close>. The counter is a Go int: after \<open>2^63\<close> calls it has
  wrapped to \<open>- 2^63\<close>, and Go's remainder has the sign of the dividend, so call
  number \<open>2^63 + 1\<close> serves \<open>- 8\<close> where \<open>2^63 mod 10\<close> is 8.
\<close>

theorem StaticViewer_after_wrap:
  "(9223372036854775809 - 1 :: nat) mod 10 = 8
   \<and> snd (StaticViewer_Serves
            (\<lambda>m. (if Values m = [8] then ''8'' else if Values m = [- 8] then ''-8'' else ''other'',
                  None))
            (\<lambda>sec layout. layout) (defaultCfg [] []) (\<lparr>last_tick = 0, time = 0\<rparr>, 0)
            (replicate 9223372036854775809 0)) ! (9223372036854775809 - 1)
      = ''-8''
   \<and> fst ((\<lambda>m. (if Values m = [8] then ''8'' else if Values m = [- 8] then ''-8'' else ''other'',
                  None :: string option))
            \<lparr> Values = [real ((9223372036854775809 - 1) mod 10)],
              Time = (\<lambda>sec layout. layout) (GetTime \<lparr>last_tick = 0, time = 0\<rparr>)
                       (TimeFormat (defaultCfg [] [])) \<rparr>)
      = ''8''"
  using StaticViewer_wraps [of
      "\<lambda>m. (if Values m = [8] then ''8'' else if Values m = [- 8] then ''-8'' else ''other'', None)"
      "\<lambda>sec layout. layout" "defaultCfg [] []" "\<lparr>last_tick = 0, time = 0\<rparr>" 0]
  by simp

subsection \<open>The sample time\<close>

text \<open>
  C6. Whatever the polling loop meets (firings, calls of \<^verbatim>\<open>Tick\<close> by handlers, the
  cancellation): when the clock readings taken along the way never go back, the times
  stamped by the successive refreshes never go back either.
\<close>

theorem refresh_stamps_sorted:
  assumes "sorted (readings es)"
  shows "sorted (refresh_stamps cfg w es)"
  using assms
proof (induction es arbitrary: w)
  case Nil
  then show ?case by (simp add: refresh_stamps_simps)
next
  case (Cons e es)
  show ?case
  proof (cases e)
    case (TickerC n n' m)
    with Cons.prems have le: "\<forall>y \<in> set (readings es). n' \<le> y" and rest: "sorted (readings es)"
      by simp_all
    have "\<forall>y \<in> set (refresh_stamps cfg (ticker_case n n' m w) es). n' \<le> y"
      using le refresh_stamps_subset by blast
    with Cons.IH[OF rest] TickerC show ?thesis
      by (simp add: refresh_stamps_simps)
  next
    case CtxDone
    then show ?thesis by (simp add: refresh_stamps_simps)
  next
    case (Pull n)
    with Cons.prems have "sorted (readings es)" by simp
    from Cons.IH[OF this] Pull show ?thesis
      by (simp add: refresh_stamps_simps)
  qed
qed

theorem refresh_stamps_sorted_witness:
  "sorted (readings [Pull 100, TickerC 101 101 \<lparr>NumGC = 7, others = ()\<rparr>,
                     TickerC 103 104 \<lparr>NumGC = 8, others = ()\<rparr>, CtxDone])
   \<and> sorted (refresh_stamps (defaultCfg [] [])
        \<lparr>smgr = \<lparr>last_tick = 0, time = 0\<rparr>, memstats = \<lparr>NumGC = 0, others = ()\<rparr>\<rparr>
        [Pull 100, TickerC 101 101 \<lparr>NumGC = 7, others = ()\<rparr>,
         TickerC 103 104 \<lparr>NumGC = 8, others = ()\<rparr>, CtxDone])
   \<and> refresh_stamps (defaultCfg [] [])
        \<lparr>smgr = \<lparr>last_tick = 0, time = 0\<rparr>, memstats = \<lparr>NumGC = 0, others = ()\<rparr>\<rparr>
        [Pull 100, TickerC 101 101 \<lparr>NumGC = 7, others = ()\<rparr>,
         TickerC 103 104 \<lparr>NumGC = 8, others = ()\<rparr>, CtxDone]
      = [101, 104]"
proof -
  have r: "sorted (readings [Pull 100, TickerC 101 101 \<lparr>NumGC = 7, others = ()\<rparr>,
                     TickerC 103 104 \<lparr>NumGC = 8, others = ()\<rparr>, CtxDone])"
    by simp
  have "refresh_stamps (defaultCfg [] [])
        \<lparr>smgr = \<lparr>last_tick = 0, time = 0\<rparr>, memstats = \<lparr>NumGC = 0, others = ()\<rparr>\<rparr>
        [Pull 100, TickerC 101 101 \<lparr>NumGC = 7, others = ()\<rparr>,
         TickerC 103 104 \<lparr>NumGC = 8, others = ()\<rparr>, CtxDone]
      = [101, 104]"
    by (simp add: refresh_stamps_simps defaultCfg_def DefaultInterval_def Tick_def
        deadline_after_def millis_to_secs_def go_quot_def int64_def refresh_due_def GetTick_def
        ticker_case_eq TimeUpdate_def)
  with r refresh_stamps_sorted [OF r, of "defaultCfg [] []"
      "\<lparr>smgr = \<lparr>last_tick = 0, time = 0\<rparr>, memstats = \<lparr>NumGC = 0, others = ()\<rparr>\<rparr>"]
  show ?thesis by simp
qed

subsection \<open>Serialization errors\<close>

text \<open>
  C7. Write \<^verbatim>\<open>json.Marshal\<close> as a pair of functions, the bytes it returns and the
  error it returns. Whatever the error is, \<^verbatim>\<open>Serve\<close> of \<^verbatim>\<open>GCNumViewer\<close> and of
  \<^verbatim>\<open>StaticViewer\<close> returns normally: it has extended the deadline (and, for the
  static viewer, advanced the counter) and appended to the response exactly the bytes
  the marshaller produced. The error appears nowhere in the result.
\<close>

theorem Serve_drops_marshal_error:
  "GCNumViewer_Serve (\<lambda>m. (bytes m, err m)) format cfg now w rw =
     (w\<lparr>smgr := Tick cfg now (smgr w)\<rparr>,
      rw @ bytes (GCNumViewer_metrics format cfg (w\<lparr>smgr := Tick cfg now (smgr w)\<rparr>)))
   \<and> StaticViewer_Serve (\<lambda>m. (bytes m, err m)) format cfg now (s, i) rw =
     ((Tick cfg now s, int64 (i + 1)),
      rw @ bytes (StaticViewer_metrics format cfg (Tick cfg now s) i))"
  by (simp add: GCNumViewer_Serve_def StaticViewer_Serve_def Let_def)

text \<open>An instance with a marshaller that always fails and returns no bytes.\<close>

theorem Serve_drops_marshal_error_witness:
  "GCNumViewer_Serve (\<lambda>m. ([], Some ''json: unsupported value'')) (\<lambda>sec layout. layout)
      (defaultCfg [] []) 100
      \<lparr>smgr = \<lparr>last_tick = 0, time = 0\<rparr>, memstats = \<lparr>NumGC = 7, others = ()\<rparr>\<rparr> []
    = (\<lparr>smgr = \<lparr>last_tick = 104, time = 0\<rparr>, memstats = \<lparr>NumGC = 7, others = ()\<rparr>\<rparr>, [])
   \<and> StaticViewer_Serve (\<lambda>m. ([], Some ''json: unsupported value'')) (\<lambda>sec layout. layout)
      (defaultCfg [] []) 100 (\<lparr>last_tick = 0, time = 0\<rparr>, 4) []
    = ((\<lparr>last_tick = 104, time = 0\<rparr>, 5), [])"
  using Serve_drops_marshal_error [of "\<lambda>m. []" "\<lambda>m. Some ''json: unsupported value''"
      "\<lambda>sec layout. layout" "defaultCfg [] []" 100
      "\<lparr>smgr = \<lparr>last_tick = 0, time = 0\<rparr>, memstats = \<lparr>NumGC = 7, others = ()\<rparr>\<rparr>" "[]"
      "\<lparr>last_tick = 0, time = 0\<rparr>" 4]
  by (simp add: defaultCfg_def DefaultInterval_def Tick_def deadline_after_def
      millis_to_secs_def go_quot_def int64_def)

subsection \<open>Registering viewers\<close>

text \<open>
  C8. \<^verbatim>\<open>Register\<close> on a collection \<open>v\<close> with the sources \<open>views\<close>: the result has
  \<open>length v + length views\<close> elements; its first \<open>length v\<close> elements are \<open>v\<close>,
  unchanged; the rest is \<open>views\<close>, in argument order. Nothing is dropped for its name:
  for any naming of the elements and any name \<open>n\<close>, the elements named \<open>n\<close> are
  those of \<open>v\<close> followed by those of \<open>views\<close>, and every element occurs as often as
  in \<open>v\<close> and \<open>views\<close> together.
\<close>

theorem Register_appends:
  "length (Register v views) = length v + length views
   \<and> take (length v) (Register v views) = v
   \<and> drop (length v) (Register v views) = views
   \<and> filter (\<lambda>x. name x = n) (Register v views) =
       filter (\<lambda>x. name x = n) v @ filter (\<lambda>x. name x = n) views
   \<and> count_list (Register v views) x = count_list v x + count_list views x"
  by (simp add: Register_def)

text \<open>Two static viewers registered one after the other are both in the collection.\<close>

theorem Register_appends_witness:
  "Register (Register NewEmptyViewers [StaticViewer ''a'']) [GCNumViewer ''b'', StaticViewer ''c'']
     = [StaticViewer ''a'', GCNumViewer ''b'', StaticViewer ''c'']
   \<and> filter (\<lambda>x. Name x = VStatic)
        (Register [StaticViewer ''a''] [GCNumViewer ''b'', StaticViewer ''c''])
     = [StaticViewer ''a'', StaticViewer ''c'']"
  using Register_appends [of "[StaticViewer ''a'']" "[GCNumViewer ''b'', StaticViewer ''c'']"
      Name VStatic "StaticViewer ''a''"]
  by (simp add: Register_def NewEmptyViewers_def VStatic_def VGCNum_def)

subsection \<open>The deadline at construction\<close>

text \<open>
  C9. \<^verbatim>\<open>NewStatsMgr\<close> uses the expression of \<^verbatim>\<open>Tick\<close>. With an interval of 500
  milliseconds twice the interval is one second, and a manager built at the clock
  reading 100 should hold the deadline 101. The code stores 100, a deadline that no
  firing can be before: the firings at 100 and at 101 are both skipped, and the snapshot
  is never filled.
\<close>

theorem NewStatsMgr_subsecond_interval_expired:
  "GetTick (NewStatsMgr (WithInterval 500 c) 100) = 100
   \<and> tick_log (WithInterval 500 c)
        \<lparr>smgr = NewStatsMgr (WithInterval 500 c) 100, memstats = m0\<rparr>
        [TickerC 100 100 m1, TickerC 101 101 m2]
      = [None, None]
   \<and> polling_loop (WithInterval 500 c)
        \<lparr>smgr = NewStatsMgr (WithInterval 500 c) 100, memstats = m0\<rparr>
        [TickerC 100 100 m1, TickerC 101 101 m2]
      = \<lparr>smgr = NewStatsMgr (WithInterval 500 c) 100, memstats = m0\<rparr>"
  by (simp add: GetTick_def NewStatsMgr_def WithInterval_def deadline_after_def
      millis_to_secs_def go_quot_def int64_def refresh_due_def ticker_case_eq)

subsection \<open>Address options\<close>

text \<open>
  C10. Applying the option \<^verbatim>\<open>WithLinkAddr(addr)\<close> through \<^verbatim>\<open>SetConfiguration\<close>
  changes the field \<^verbatim>\<open>LinkAddr\<close> only: \<^verbatim>\<open>ListenAddr\<close> and every other field keep
  their values. Applying \<^verbatim>\<open>WithAddr(addr)\<close> sets both \<^verbatim>\<open>ListenAddr\<close> and
  \<^verbatim>\<open>LinkAddr\<close> to \<^verbatim>\<open>addr\<close> and changes no other field.
\<close>

theorem WithLinkAddr_WithAddr_frame:
  "LinkAddr (SetConfiguration [WithLinkAddr addr] c) = addr
   \<and> ListenAddr (SetConfiguration [WithLinkAddr addr] c) = ListenAddr c
   \<and> AutoOpenBrowser (SetConfiguration [WithLinkAddr addr] c) = AutoOpenBrowser c
   \<and> Interval (SetConfiguration [WithLinkAddr addr] c) = Interval c
   \<and> MaxPoints (SetConfiguration [WithLinkAddr addr] c) = MaxPoints c
   \<and> Template (SetConfiguration [WithLinkAddr addr] c) = Template c
   \<and> TimeFormat (SetConfiguration [WithLinkAddr addr] c) = TimeFormat c
   \<and> Theme (SetConfiguration [WithLinkAddr addr] c) = Theme c
   \<and> LinkAddr (SetConfiguration [WithAddr addr] c) = addr
   \<and> ListenAddr (SetConfiguration [WithAddr addr] c) = addr
   \<and> AutoOpenBrowser (SetConfiguration [WithAddr addr] c) = AutoOpenBrowser c
   \<and> Interval (SetConfiguration [WithAddr addr] c) = Interval c
   \<and> MaxPoints (SetConfiguration [WithAddr addr] c) = MaxPoints c
   \<and> Template (SetConfiguration [WithAddr addr] c) = Template c
   \<and> TimeFormat (SetConfiguration [WithAddr addr] c) = TimeFormat c
   \<and> Theme (SetConfiguration [WithAddr addr] c) = Theme c"
  by (simp add: WithLinkAddr_def WithAddr_def)
theorem WithLinkAddr_WithAddr_frame_witness:
  "SetConfiguration [WithLinkAddr ''example.org:80''] (defaultCfg [] [])
     = (defaultCfg [] []) \<lparr>LinkAddr := ''example.org:80''\<rparr>
   \<and> ListenAddr (SetConfiguration [WithLinkAddr ''example.org:80''] (defaultCfg [] []))
     = DefaultAddr
   \<and> SetConfiguration [WithAddr ''localhost:8087''] (defaultCfg [] [])
     = (defaultCfg [] []) \<lparr>ListenAddr := ''localhost:8087'', LinkAddr := ''localhost:8087''\<rparr>"
  using WithLinkAddr_WithAddr_frame [of "''example.org:80''" "defaultCfg [] []"]
    WithLinkAddr_WithAddr_frame [of "''localhost:8087''" "defaultCfg [] []"]
  by (simp add: WithLinkAddr_def WithAddr_def defaultCfg_def)

section \<open>Further properties of the code\<close>

text \<open>
  What \<^verbatim>\<open>Tick\<close> and \<^verbatim>\<open>NewStatsMgr\<close> store. For an interval from 0 up to \<open>2^53\<close>
  milliseconds and a clock reading from 0 up to \<open>2^62\<close>, both store the deadline
  \<open>now + 2 * (interval div 1000)\<close>: the interval is cut down to whole seconds first and
  doubled afterwards. \<^verbatim>\<open>Tick\<close> leaves the sample time alone and \<^verbatim>\<open>NewStatsMgr\<close>
  starts it at 0.
\<close>

theorem deadline_stored:
  assumes "0 \<le> Interval cfg" "Interval cfg < 9007199254740992"
    and "0 \<le> now" "now < 4611686018427387904"
  shows "GetTick (Tick cfg now s) = now + 2 * (Interval cfg div 1000)
         \<and> GetTime (Tick cfg now s) = GetTime s
         \<and> GetTick (NewStatsMgr cfg now) = now + 2 * (Interval cfg div 1000)
         \<and> GetTime (NewStatsMgr cfg now) = 0"
proof -
  have d: "deadline_after cfg now = now + 2 * (Interval cfg div 1000)"
    using assms by (rule deadline_after_eq)
  have "GetTime (Tick cfg now s) = GetTime s" "GetTime (NewStatsMgr cfg now) = 0"
    by (simp_all add: GetTime_def Tick_def NewStatsMgr_def)
  then show ?thesis
    by (simp add: GetTick_Tick GetTick_NewStatsMgr d)
qed

theorem deadline_stored_witness:
  "GetTick (Tick (defaultCfg [] []) 100 \<lparr>last_tick = 0, time = 7\<rparr>) = 104
   \<and> GetTime (Tick (defaultCfg [] []) 100 \<lparr>last_tick = 0, time = 7\<rparr>) = 7
   \<and> GetTick (NewStatsMgr (defaultCfg [] []) 100) = 104
   \<and> GetTime (NewStatsMgr (defaultCfg [] []) 100) = 0"
  using deadline_stored [of "defaultCfg [] []" 100 "\<lparr>last_tick = 0, time = 7\<rparr>"]
  by (simp add: defaultCfg_def DefaultInterval_def GetTime_def)

text \<open>
  The deadline at construction, for an interval of a whole number \<open>k > 0\<close> of
  seconds. A manager built at the clock reading \<open>T\<close> and never sent a \<^verbatim>\<open>Tick\<close>
  refreshes at every firing of the ticker that comes before \<open>T + 2 * k\<close>.
\<close>

theorem startup_window_refresh:
  assumes "Interval cfg = 1000 * k" "0 < k" "Interval cfg < 9007199254740992"
    and "0 \<le> T" "T < 4611686018427387904"
    and "ticks_only (\<lambda>now. now < T + 2 * k) es"
  shows "length (tick_log cfg \<lparr>smgr = NewStatsMgr cfg T, memstats = m0\<rparr> es) = length es
         \<and> None \<notin> set (tick_log cfg \<lparr>smgr = NewStatsMgr cfg T, memstats = m0\<rparr> es)"
proof -
  have "GetTick (NewStatsMgr cfg T) = T + 2 * (Interval cfg div 1000)"
    using assms by (simp add: GetTick_NewStatsMgr deadline_after_eq)
  then have d: "GetTick (NewStatsMgr cfg T) = T + 2 * k"
    using assms(1) by simp
  have "ticks_only (\<lambda>now. now < GetTick (smgr \<lparr>smgr = NewStatsMgr cfg T, memstats = m0\<rparr>)) es"
    using assms(6) by (rule ticks_only_mono) (simp add: d)
  then show ?thesis by (rule busy_loop)
qed

theorem startup_window_refresh_witness:
  "Interval (defaultCfg [] []) = 1000 * 2
   \<and> ticks_only (\<lambda>now. now < 100 + 2 * 2)
        [TickerC 102 102 \<lparr>NumGC = 7, others = ()\<rparr>]
   \<and> length (tick_log (defaultCfg [] [])
        \<lparr>smgr = NewStatsMgr (defaultCfg [] []) 100, memstats = \<lparr>NumGC = 0, others = ()\<rparr>\<rparr>
        [TickerC 102 102 \<lparr>NumGC = 7, others = ()\<rparr>]) = 1
   \<and> None \<notin> set (tick_log (defaultCfg [] [])
        \<lparr>smgr = NewStatsMgr (defaultCfg [] []) 100, memstats = \<lparr>NumGC = 0, others = ()\<rparr>\<rparr>
        [TickerC 102 102 \<lparr>NumGC = 7, others = ()\<rparr>])"
proof -
  have i: "Interval (defaultCfg [] []) = 1000 * 2"
    by (simp add: defaultCfg_def DefaultInterval_def)
  have b: "Interval (defaultCfg [] []) < 9007199254740992"
    by (simp add: defaultCfg_def DefaultInterval_def)
  have t: "ticks_only (\<lambda>now. now < 100 + 2 * 2) [TickerC 102 102 \<lparr>NumGC = 7, others = ()\<rparr>]"
    by simp
  from startup_window_refresh [OF i _ b _ _ t, of "\<lparr>NumGC = 0, others = ()\<rparr>"]
  show ?thesis using i t by simp
qed

text \<open>
  The ticker of the polling goroutine. With an interval from 1 to 9223372036853
  milliseconds the duration handed to \<^verbatim>\<open>time.NewTicker\<close> is positive and the loop
  runs; with an interval of 0 or a negative one (above \<open>- 9223372036854\<close>) the
  goroutine panics before its first iteration.
\<close>

theorem polling_ticker_interval:
  "(0 < Interval cfg \<and> Interval cfg < 9223372036854 \<longrightarrow>
      polling cfg w es = Inr (polling_loop cfg w es))
   \<and> (Interval cfg \<le> 0 \<and> - 9223372036854 < Interval cfg \<longrightarrow>
      polling cfg w es = Inl NonPositiveTickerInterval)"
  by (simp add: polling_runs polling_panics)

theorem polling_ticker_interval_witness:
  "0 < Interval (defaultCfg [] []) \<and> Interval (defaultCfg [] []) < 9223372036854
   \<and> polling (defaultCfg [] [])
        \<lparr>smgr = \<lparr>last_tick = 5, time = 1\<rparr>, memstats = \<lparr>NumGC = 0, others = ()\<rparr>\<rparr>
        [TickerC 3 4 \<lparr>NumGC = 7, others = ()\<rparr>, CtxDone]
      = Inr \<lparr>smgr = \<lparr>last_tick = 5, time = 4\<rparr>, memstats = \<lparr>NumGC = 7, others = ()\<rparr>\<rparr>
   \<and> Interval (WithInterval 0 (defaultCfg [] [])) \<le> 0
   \<and> - 9223372036854 < Interval (WithInterval 0 (defaultCfg [] []))
   \<and> polling (WithInterval 0 (defaultCfg [] []))
        \<lparr>smgr = \<lparr>last_tick = 5, time = 1\<rparr>, memstats = \<lparr>NumGC = 0, others = ()\<rparr>\<rparr>
        [TickerC 3 4 \<lparr>NumGC = 7, others = ()\<rparr>, CtxDone]
      = Inl NonPositiveTickerInterval"
  using
    polling_ticker_interval [of "defaultCfg [] []"
      "\<lparr>smgr = \<lparr>last_tick = 5, time = 1\<rparr>, memstats = \<lparr>NumGC = 0, others = ()\<rparr>\<rparr>"
      "[TickerC 3 4 \<lparr>NumGC = 7, others = ()\<rparr>, CtxDone]"]
    polling_ticker_interval [of "WithInterval 0 (defaultCfg [] [])"
      "\<lparr>smgr = \<lparr>last_tick = 5, time = 1\<rparr>, memstats = \<lparr>NumGC = 0, others = ()\<rparr>\<rparr>"
      "[TickerC 3 4 \<lparr>NumGC = 7, others = ()\<rparr>, CtxDone]"]
  by (simp add: defaultCfg_def DefaultInterval_def WithInterval_def ticker_case_eq
      refresh_due_def GetTick_def TimeUpdate_def)

text \<open>
  Once the context is cancelled the loop returns: whatever follows, the state stays
  as it was at that moment and no refresh is logged.
\<close>

theorem polling_loop_stops_at_CtxDone:
  "polling_loop cfg w (CtxDone # es) = w
   \<and> tick_log cfg w (CtxDone # es) = []"
  by simp

text \<open>
  The sample time the manager holds when the loop returns is the stamp of the last
  refresh that ran, and the time it held before when none ran.
\<close>

theorem GetTime_is_last_stamp:
  "GetTime (smgr (polling_loop cfg w es)) = last (GetTime (smgr w) # refresh_stamps cfg w es)"
proof (induction es arbitrary: w)
  case Nil
  then show ?case by (simp add: refresh_stamps_simps)
next
  case (Cons e es)
  then show ?case
    by (cases e)
      (auto simp: refresh_stamps_simps ticker_case_eq GetTime_def TimeUpdate_def Tick_def)
qed

text \<open>
  \<^verbatim>\<open>GCNumViewer.Serve\<close> changes the shared state by one call of \<^verbatim>\<open>Tick\<close> and
  nothing else: the deadline becomes the one for the clock reading of the call, the
  sample time and the snapshot stay, and the response gets the encoding of the point
  made of \<^verbatim>\<open>NumGC\<close> and the formatted sample time.
\<close>

theorem Serve_extends_deadline_only:
  "smgr (fst (GCNumViewer_Serve marshal format cfg now w rw)) = Tick cfg now (smgr w)
   \<and> GetTick (smgr (fst (GCNumViewer_Serve marshal format cfg now w rw))) = deadline_after cfg now
   \<and> GetTime (smgr (fst (GCNumViewer_Serve marshal format cfg now w rw))) = GetTime (smgr w)
   \<and> memstats (fst (GCNumViewer_Serve marshal format cfg now w rw)) = memstats w
   \<and> snd (GCNumViewer_Serve marshal format cfg now w rw) =
       rw @ fst (marshal \<lparr> Values = [real (unat (NumGC (memstats w)))],
                             Time = format (GetTime (smgr w)) (TimeFormat cfg) \<rparr>)"
  by (simp add: GCNumViewer_Serve_def GCNumViewer_metrics_def Let_def split_beta GetTick_def
      GetTime_def Tick_def)

text \<open>
  \<^verbatim>\<open>SetConfiguration\<close> applies its options from left to right: applying two
  lists one after the other is applying their concatenation.
\<close>

theorem SetConfiguration_in_order:
  "SetConfiguration (opts @ opts') c = SetConfiguration opts' (SetConfiguration opts c)"
  by (induction opts arbitrary: c) simp_all

end
